theory Spec2Isabelle
  imports Complex_Main "HOL-Library.Sublist"
begin

section \<open>JavaScript values and the operations the source applies to them\<close>

text \<open>
  The classifier client (\<^verbatim>\<open>src/api/geminiApi.jsx\<close>) reads a JSON body that the
  network supplies, so the body is modelled as an arbitrary JavaScript value. A JSON
  number is a \<open>real\<close>: the source only tests numbers for truthiness and for
  \<^verbatim>\<open>> 0\<close>. An object is its list of own properties; a lookup takes the first
  binding of a name.
\<close>

datatype jsval =
    JUndefined
  | JNull
  | JBool bool
  | JNum real
  | JStr string
  | JArr "jsval list"
  | JObj "(string \<times> jsval) list"

text \<open>A thrown value or a rejection reason; the source reads only its \<^verbatim>\<open>message\<close>.\<close>

datatype js_error = JsError string

fun error_message :: "js_error \<Rightarrow> string" where
  "error_message (JsError m) = m"

text \<open>
  Library functions of the JavaScript runtime that the source calls and whose text
  processing is not part of the repository are parameters of the embedding:
  \<^verbatim>\<open>JSON.parse\<close> on a string (\<open>Inl\<close> is the thrown SyntaxError),
  \<^verbatim>\<open>JSON.stringify\<close>, the conversion of a number to a string and of a string to a
  number (\<open>None\<close> is NaN), and the message text of the TypeError raised when a property
  of \<^verbatim>\<open>null\<close> or \<^verbatim>\<open>undefined\<close> is read.
\<close>

record js_builtins =
  JSON_parse :: "string \<Rightarrow> js_error + jsval"
  JSON_stringify :: "jsval \<Rightarrow> string"
  Number_toString :: "real \<Rightarrow> string"
  String_toNumber :: "string \<Rightarrow> real option"
  TypeError_text :: "jsval \<Rightarrow> string \<Rightarrow> string"

text \<open>Truthiness, as \<^verbatim>\<open>&&\<close>, \<^verbatim>\<open>||\<close>, \<^verbatim>\<open>!\<close> and \<^verbatim>\<open>if\<close> test it.\<close>

fun to_boolean :: "jsval \<Rightarrow> bool" where
  "to_boolean JUndefined = False"
| "to_boolean JNull = False"
| "to_boolean (JBool b) = b"
| "to_boolean (JNum r) = (r \<noteq> 0)"
| "to_boolean (JStr s) = (s \<noteq> [])"
| "to_boolean (JArr xs) = True"
| "to_boolean (JObj kvs) = True"

text \<open>
  \<^verbatim>\<open>v.k\<close> for the property names the source reads (\<^verbatim>\<open>candidates\<close>,
  \<^verbatim>\<open>length\<close>, \<^verbatim>\<open>content\<close>, \<^verbatim>\<open>parts\<close>, \<^verbatim>\<open>text\<close>, \<^verbatim>\<open>message\<close>,
  \<^verbatim>\<open>status\<close>, \<^verbatim>\<open>error\<close>): none of them is inherited from a prototype, and
  only \<^verbatim>\<open>length\<close> is an own property of arrays and strings. Reading a property
  of \<^verbatim>\<open>null\<close> or \<^verbatim>\<open>undefined\<close> throws.
\<close>

fun get_prop :: "js_builtins \<Rightarrow> jsval \<Rightarrow> string \<Rightarrow> js_error + jsval" where
  "get_prop B JUndefined k = Inl (JsError (TypeError_text B JUndefined k))"
| "get_prop B JNull k = Inl (JsError (TypeError_text B JNull k))"
| "get_prop B (JBool b) k = Inr JUndefined"
| "get_prop B (JNum r) k = Inr JUndefined"
| "get_prop B (JStr s) k = Inr (if k = ''length'' then JNum (real (length s)) else JUndefined)"
| "get_prop B (JArr xs) k = Inr (if k = ''length'' then JNum (real (length xs)) else JUndefined)"
| "get_prop B (JObj kvs) k = Inr (case map_of kvs k of None \<Rightarrow> JUndefined | Some v \<Rightarrow> v)"

text \<open>\<^verbatim>\<open>v[0]\<close>: the first element, the first character, or the property named \<^verbatim>\<open>0\<close>.\<close>

fun get_first :: "js_builtins \<Rightarrow> jsval \<Rightarrow> js_error + jsval" where
  "get_first B JUndefined = Inl (JsError (TypeError_text B JUndefined ''0''))"
| "get_first B JNull = Inl (JsError (TypeError_text B JNull ''0''))"
| "get_first B (JBool b) = Inr JUndefined"
| "get_first B (JNum r) = Inr JUndefined"
| "get_first B (JStr s) = Inr (case s of [] \<Rightarrow> JUndefined | c # cs \<Rightarrow> JStr [c])"
| "get_first B (JArr xs) = Inr (case xs of [] \<Rightarrow> JUndefined | x # ys \<Rightarrow> x)"
| "get_first B (JObj kvs) = Inr (case map_of kvs ''0'' of None \<Rightarrow> JUndefined | Some v \<Rightarrow> v)"

fun join_comma :: "string list \<Rightarrow> string" where
  "join_comma [] = []"
| "join_comma [x] = x"
| "join_comma (x # y # zs) = x @ '','' @ join_comma (y # zs)"

text \<open>The string a value becomes in a template literal or as the argument of \<^verbatim>\<open>JSON.parse\<close>.\<close>

fun to_string :: "js_builtins \<Rightarrow> jsval \<Rightarrow> string" where
  "to_string B JUndefined = ''undefined''"
| "to_string B JNull = ''null''"
| "to_string B (JBool b) = (if b then ''true'' else ''false'')"
| "to_string B (JNum r) = Number_toString B r"
| "to_string B (JStr s) = s"
| "to_string B (JArr xs) =
     join_comma (map (\<lambda>x. if x = JNull \<or> x = JUndefined then [] else to_string B x) xs)"
| "to_string B (JObj kvs) = ''[object Object]''"

text \<open>The number a value becomes as an operand of \<^verbatim>\<open>>\<close>; \<open>None\<close> is NaN.\<close>

fun to_number :: "js_builtins \<Rightarrow> jsval \<Rightarrow> real option" where
  "to_number B JUndefined = None"
| "to_number B JNull = Some 0"
| "to_number B (JBool b) = Some (if b then 1 else 0)"
| "to_number B (JNum r) = Some r"
| "to_number B (JStr s) = String_toNumber B s"
| "to_number B (JArr xs) = String_toNumber B (to_string B (JArr xs))"
| "to_number B (JObj kvs) = String_toNumber B (to_string B (JObj kvs))"

definition gt_zero :: "js_builtins \<Rightarrow> jsval \<Rightarrow> bool" where
  "gt_zero B v = (case to_number B v of None \<Rightarrow> False | Some r \<Rightarrow> 0 < r)"

text \<open>Sequencing of steps that may throw: the first thrown value ends the sequence.\<close>

definition bind_exn :: "js_error + 'a \<Rightarrow> ('a \<Rightarrow> js_error + 'b) \<Rightarrow> js_error + 'b" where
  "bind_exn m f = (case m of Inl e \<Rightarrow> Inl e | Inr x \<Rightarrow> f x)"

text \<open>\<^verbatim>\<open>s.split(',')\<close> on a string.\<close>

fun split_comma :: "string \<Rightarrow> string list" where
  "split_comma [] = [[]]"
| "split_comma (c # cs) =
     (if c = CHR '','' then [] # split_comma cs
      else (case split_comma cs of [] \<Rightarrow> [[c]] | w # ws \<Rightarrow> (c # w) # ws))"


section \<open>The classifier client: \<^verbatim>\<open>processImageWithAI\<close>\<close>

text \<open>
  What \<^verbatim>\<open>fetch\<close> and \<^verbatim>\<open>response.json()\<close> deliver is the classifier's behaviour:
  the request is rejected (network failure), or a response arrives with its
  \<^verbatim>\<open>ok\<close> flag, status line, and the outcome of parsing its body as JSON
  (\<open>Inl\<close>: the body is absent or is not JSON).
\<close>

record http_response =
  resp_ok :: bool
  resp_status :: nat
  resp_statusText :: string
  resp_json :: "js_error + jsval"

datatype fetch_outcome = FetchRejected js_error | FetchResolved http_response

text \<open>The object \<^verbatim>\<open>{status, faceDetected, message}\<close> that the promise resolves to.\<close>

record ai_response =
  ai_status :: jsval
  ai_faceDetected :: bool
  ai_message :: jsval

definition error_result :: "string \<Rightarrow> ai_response" where
  "error_result m = \<lparr>ai_status = JStr ''error'', ai_faceDetected = False, ai_message = JStr m\<rparr>"

text \<open>\<^verbatim>\<open>capturedImageBase64.split(',')[1]\<close>; \<open>None\<close> is \<^verbatim>\<open>undefined\<close>.\<close>

definition base64ImageData :: "string \<Rightarrow> string option" where
  "base64ImageData capturedImageBase64 =
     (case split_comma capturedImageBase64 of a # b # rest \<Rightarrow> Some b | _ \<Rightarrow> None)"

text \<open>
  The validation of lines 98--100:
  \<^verbatim>\<open>result.candidates && result.candidates.length > 0 && result.candidates[0].content
  && result.candidates[0].content.parts && result.candidates[0].content.parts.length > 0\<close>.
\<close>

definition structure_valid :: "js_builtins \<Rightarrow> jsval \<Rightarrow> js_error + bool" where
  "structure_valid B result =
     bind_exn (get_prop B result ''candidates'') (\<lambda>candidates.
     if \<not> to_boolean candidates then Inr False else
     bind_exn (get_prop B candidates ''length'') (\<lambda>n.
     if \<not> gt_zero B n then Inr False else
     bind_exn (get_first B candidates) (\<lambda>candidate.
     bind_exn (get_prop B candidate ''content'') (\<lambda>content.
     if \<not> to_boolean content then Inr False else
     bind_exn (get_prop B content ''parts'') (\<lambda>parts.
     if \<not> to_boolean parts then Inr False else
     bind_exn (get_prop B parts ''length'') (\<lambda>m.
     Inr (gt_zero B m)))))))"

text \<open>\<^verbatim>\<open>result.candidates[0].content.parts[0].text\<close> (line 101).\<close>

definition response_text :: "js_builtins \<Rightarrow> jsval \<Rightarrow> js_error + jsval" where
  "response_text B result =
     bind_exn (get_prop B result ''candidates'') (\<lambda>candidates.
     bind_exn (get_first B candidates) (\<lambda>candidate.
     bind_exn (get_prop B candidate ''content'') (\<lambda>content.
     bind_exn (get_prop B content ''parts'') (\<lambda>parts.
     bind_exn (get_first B parts) (\<lambda>part.
     get_prop B part ''text'')))))"

text \<open>Lines 102--106: parse the text, compare its \<^verbatim>\<open>message\<close>, build the result.\<close>

definition parsed_result :: "js_builtins \<Rightarrow> jsval \<Rightarrow> js_error + ai_response" where
  "parsed_result B jsonResponse =
     bind_exn (JSON_parse B (to_string B jsonResponse)) (\<lambda>parsedResponse.
     bind_exn (get_prop B parsedResponse ''message'') (\<lambda>msg.
     bind_exn (get_prop B parsedResponse ''status'') (\<lambda>st.
     Inr \<lparr>ai_status = st, ai_faceDetected = (msg = JStr ''Face detected''), ai_message = msg\<rparr>)))"

text \<open>\<^verbatim>\<open>errorData.error?.message || JSON.stringify(errorData)\<close> (line 92).\<close>

definition error_details :: "js_builtins \<Rightarrow> jsval \<Rightarrow> js_error + string" where
  "error_details B errorData =
     bind_exn (get_prop B errorData ''error'') (\<lambda>e.
     bind_exn (if e = JNull \<or> e = JUndefined then Inr JUndefined else get_prop B e ''message'') (\<lambda>m.
     Inr (if to_boolean m then to_string B m else JSON_stringify B errorData)))"

text \<open>The \<^verbatim>\<open>try\<close> block (lines 79--111); \<open>Inl\<close> is a value thrown inside it.\<close>

definition try_block :: "js_builtins \<Rightarrow> fetch_outcome \<Rightarrow> js_error + ai_response" where
  "try_block B outcome =
     (case outcome of
        FetchRejected e \<Rightarrow> Inl e
      | FetchResolved response \<Rightarrow>
          if \<not> resp_ok response then
            bind_exn (resp_json response) (\<lambda>errorData.
            bind_exn (error_details B errorData) (\<lambda>details.
            Inr (error_result (''Gemini API Error: '' @ Number_toString B (real (resp_status response))
                   @ '' '' @ resp_statusText response @ ''. Details: '' @ details))))
          else
            bind_exn (resp_json response) (\<lambda>result.
            bind_exn (structure_valid B result) (\<lambda>valid.
            if valid then bind_exn (response_text B result) (parsed_result B)
            else Inr (error_result ''AI processing failed: Invalid response structure.''))))"

text \<open>
  The whole function. \<open>Inl\<close> would be a rejected promise; \<open>API_KEY\<close> is the module
  constant read from the environment, \<open>fetch\<close> maps the image data sent to the
  classifier's behaviour.
\<close>

definition processImageWithAI ::
  "js_builtins \<Rightarrow> string \<Rightarrow> (string option \<Rightarrow> fetch_outcome) \<Rightarrow> string \<Rightarrow> js_error + ai_response" where
  "processImageWithAI B API_KEY fetch capturedImageBase64 =
     (if API_KEY = [] then Inr (error_result ''Gemini API Key is not configured.'')
      else
        (case try_block B (fetch (base64ImageData capturedImageBase64)) of
           Inl error \<Rightarrow> Inr (error_result (''AI processing failed: '' @ error_message error @ ''.''))
         | Inr r \<Rightarrow> Inr r))"

text \<open>The three message forms of the error results.\<close>

definition human_readable :: "string \<Rightarrow> bool" where
  "human_readable txt =
     (txt = ''Gemini API Key is not configured.'' \<or> prefix ''Gemini API Error: '' txt
      \<or> prefix ''AI processing failed: '' txt)"

definition is_error_result :: "ai_response \<Rightarrow> bool" where
  "is_error_result r =
     (ai_status r = JStr ''error'' \<and> \<not> ai_faceDetected r \<and>
      (case ai_message r of JStr txt \<Rightarrow> human_readable txt | _ \<Rightarrow> False))"


section \<open>The capture workflow: \<^verbatim>\<open>WebcamCapture\<close>\<close>

text \<open>
  The document that \<^verbatim>\<open>logAttendance\<close> hands to \<^verbatim>\<open>addDoc\<close>. Its
  \<^verbatim>\<open>timestamp\<close> is the \<^verbatim>\<open>serverTimestamp()\<close> placeholder, filled in by the store.
\<close>

record attendance_record =
  personName :: string
  image :: string
  loggedByUserId :: string

text \<open>
  \<^verbatim>\<open>logAttendance\<close> is memoised on \<^verbatim>\<open>[db, userId, capturedImage, setMessage]\<close>: a
  recognition object, whose \<^verbatim>\<open>onresult\<close> handler calls it, carries the values it
  closed over when the object was created.
\<close>

record closure =
  cl_db :: bool
  cl_userId :: "string option"
  cl_capturedImage :: "string option"

text \<open>A recognition session: none, started and listening, or delivered its result or
  error and not yet ended.\<close>

datatype recognition = NoSession | Listening closure | Finishing

text \<open>
  The component's state variables (lines 18--24), the \<^verbatim>\<open>message\<close> state of
  \<^verbatim>\<open>App\<close> that \<^verbatim>\<open>setMessage\<close> writes, the props \<^verbatim>\<open>db\<close> (whether it is truthy)
  and \<^verbatim>\<open>userId\<close>, the \<^verbatim>\<open>speechRecognition\<close> ref, and the world the component
  acts on: the media streams whose tracks run, the calls in flight, the calls made, and
  the documents stored. A \<^verbatim>\<open>MediaStream\<close> object is the number of its creation.
\<close>

record controller =
  stream :: "nat option"
  isCameraActive :: bool
  capturedImage :: "string option"
  isProcessing :: bool
  faceDetectedByAI :: bool
  isListeningForName :: bool
  recognizedName :: string
  message :: string
  db :: bool
  userId :: "string option"
  speechRecognition :: "closure option"
  live_streams :: "nat list"
  streams_created :: nat
  getUserMedia_pending :: nat
  classifier_calls :: "string list"
  classifier_pending :: "string list"
  addDoc_calls :: "attendance_record list"
  addDoc_pending :: "attendance_record list"
  stored :: "attendance_record list"
  session :: recognition

text \<open>Truthiness of a value that is \<^verbatim>\<open>null\<close> or a string.\<close>

definition truthy :: "string option \<Rightarrow> bool" where
  "truthy v = (case v of None \<Rightarrow> False | Some u \<Rightarrow> u \<noteq> [])"

subsection \<open>The handlers\<close>

text \<open>\<^verbatim>\<open>startCamera\<close> up to its \<^verbatim>\<open>await\<close> (lines 107--115).\<close>

definition startCamera_begin :: "controller \<Rightarrow> controller" where
  "startCamera_begin s =
     s\<lparr>message := [], recognizedName := [], capturedImage := None,
       isListeningForName := False, faceDetectedByAI := False,
       getUserMedia_pending := Suc (getUserMedia_pending s)\<rparr>"

text \<open>
  \<^verbatim>\<open>getUserMedia\<close> resolves with a new stream \<open>videoStream\<close>, whose tracks run from
  then on, and \<^verbatim>\<open>startCamera\<close> continues (lines 116--120); \<open>videoRef\<close> says whether
  \<^verbatim>\<open>videoRef.current\<close> is set.
\<close>

definition startCamera_resolved :: "bool \<Rightarrow> nat \<Rightarrow> controller \<Rightarrow> controller" where
  "startCamera_resolved videoRef videoStream s =
     (let s1 = s\<lparr>live_streams := videoStream # live_streams s\<rparr>
      in if videoRef then s1\<lparr>stream := Some videoStream, isCameraActive := True\<rparr> else s1)"

text \<open>\<^verbatim>\<open>getUserMedia\<close> rejects: the \<^verbatim>\<open>catch\<close> of lines 121--125.\<close>

definition startCamera_rejected :: "controller \<Rightarrow> controller" where
  "startCamera_rejected s =
     s\<lparr>message := ''Error: Could not access webcam. Please ensure it's connected and permissions are granted.'',
       isCameraActive := False\<rparr>"

text \<open>\<^verbatim>\<open>stopCamera\<close> (lines 129--136).\<close>

definition stopCamera :: "controller \<Rightarrow> controller" where
  "stopCamera s =
     (case stream s of
        Some st \<Rightarrow> s\<lparr>live_streams := removeAll st (live_streams s), stream := None\<rparr>
      | None \<Rightarrow> s)\<lparr>isCameraActive := False\<rparr>"

text \<open>
  \<^verbatim>\<open>captureImage\<close> (lines 139--157); \<open>refs\<close> says whether \<^verbatim>\<open>videoRef.current\<close> and
  \<^verbatim>\<open>canvasRef.current\<close> are both set, \<open>imageDataUrl\<close> is what
  \<^verbatim>\<open>canvas.toDataURL\<close> returns for the current frame.
\<close>

definition captureImage :: "bool \<Rightarrow> string \<Rightarrow> controller \<Rightarrow> controller" where
  "captureImage refs imageDataUrl s =
     (if refs then stopCamera (s\<lparr>capturedImage := Some imageDataUrl\<rparr>)
      else s\<lparr>message := ''Camera or capture area not ready. Please try again.''\<rparr>)"

text \<open>\<^verbatim>\<open>handleProcessImage\<close> up to its \<^verbatim>\<open>await\<close> (lines 161--171).\<close>

definition handleProcessImage_begin :: "controller \<Rightarrow> controller" where
  "handleProcessImage_begin s =
     (case capturedImage s of
        None \<Rightarrow> s\<lparr>message := ''No image captured to process.''\<rparr>
      | Some img \<Rightarrow>
          if img = [] then s\<lparr>message := ''No image captured to process.''\<rparr>
          else s\<lparr>isProcessing := True,
                 message := ''Processing image with AI for face detection...'',
                 faceDetectedByAI := False,
                 classifier_calls := classifier_calls s @ [img],
                 classifier_pending := classifier_pending s @ [img]\<rparr>)"

text \<open>\<^verbatim>\<open>handleProcessImage\<close> after \<^verbatim>\<open>processImageWithAI\<close> has settled (lines 173--188).\<close>

definition handleProcessImage_settled ::
  "js_builtins \<Rightarrow> js_error + ai_response \<Rightarrow> controller \<Rightarrow> controller" where
  "handleProcessImage_settled B outcome s =
     (case outcome of
        Inr aiResponse \<Rightarrow>
          if ai_status aiResponse = JStr ''success'' \<and> ai_faceDetected aiResponse
          then s\<lparr>faceDetectedByAI := True,
                 message := ''Face detected! Please click 'Say My Name' to provide your name.'',
                 recognizedName := []\<rparr>
          else s\<lparr>faceDetectedByAI := False,
                 message := ''AI response: ''
                   @ (if to_boolean (ai_message aiResponse) then to_string B (ai_message aiResponse)
                      else ''No face detected'')
                   @ ''. Please retake image.'',
                 recognizedName := []\<rparr>
      | Inl error \<Rightarrow>
          s\<lparr>message := ''Error during AI processing: '' @ error_message error @ ''.'',
            faceDetectedByAI := False\<rparr>)
     \<lparr>isProcessing := False\<rparr>"

text \<open>\<^verbatim>\<open>startVoiceInput\<close> (lines 192--201).\<close>

definition startVoiceInput :: "controller \<Rightarrow> controller" where
  "startVoiceInput s =
     (case speechRecognition s of
        Some r \<Rightarrow>
          s\<lparr>isListeningForName := True, recognizedName := [],
            message := ''Listening for your name... Please speak clearly.'',
            session := Listening r\<rparr>
      | None \<Rightarrow>
          s\<lparr>message := ''Speech recognition not available. Please ensure your browser supports it (e.g., Chrome).''\<rparr>)"

text \<open>\<^verbatim>\<open>retakeImage\<close> (lines 204--212).\<close>

definition retakeImage :: "controller \<Rightarrow> controller" where
  "retakeImage s =
     (startCamera_begin (stopCamera
        (s\<lparr>capturedImage := None, recognizedName := [], isListeningForName := False,
           faceDetectedByAI := False\<rparr>)))
     \<lparr>message := ''Ready for new attendance capture.''\<rparr>"

text \<open>
  \<^verbatim>\<open>logAttendance\<close> up to its \<^verbatim>\<open>await\<close> (lines 28--48), with the values \<open>cl\<close> it
  closed over. When \<^verbatim>\<open>db && userId\<close> fails it runs to its end at once.
\<close>

definition logAttendance_begin :: "closure \<Rightarrow> string \<Rightarrow> controller \<Rightarrow> controller" where
  "logAttendance_begin cl nameToLog s =
     (if nameToLog = [] then s\<lparr>message := ''No name provided for attendance logging.''\<rparr>
      else
        (case cl_capturedImage cl of
           None \<Rightarrow> s\<lparr>message := ''No image captured to log attendance against. Please retake.''\<rparr>
         | Some img \<Rightarrow>
             if img = []
             then s\<lparr>message := ''No image captured to log attendance against. Please retake.''\<rparr>
             else
               (case cl_userId cl of
                  Some uid \<Rightarrow>
                    if cl_db cl \<and> uid \<noteq> []
                    then
                      (let doc = \<lparr>personName = nameToLog, image = img, loggedByUserId = uid\<rparr>
                       in s\<lparr>message := ''Logging attendance for '' @ nameToLog @ ''...'',
                            isProcessing := True,
                            addDoc_calls := addDoc_calls s @ [doc],
                            addDoc_pending := addDoc_pending s @ [doc]\<rparr>)
                    else s\<lparr>message := ''Attendance logging not enabled (Firebase not ready or user not authenticated).'',
                           isProcessing := False\<rparr>
                | None \<Rightarrow>
                    s\<lparr>message := ''Attendance logging not enabled (Firebase not ready or user not authenticated).'',
                      isProcessing := False\<rparr>)))"

text \<open>\<^verbatim>\<open>addDoc\<close> resolved: lines 49--52 and the \<^verbatim>\<open>finally\<close>.\<close>

definition logAttendance_resolved :: "string \<Rightarrow> controller \<Rightarrow> controller" where
  "logAttendance_resolved nameToLog s =
     s\<lparr>message := ''Attendance logged successfully for '' @ nameToLog @ ''!'',
       recognizedName := [], faceDetectedByAI := False, isProcessing := False\<rparr>"

text \<open>\<^verbatim>\<open>addDoc\<close> threw or rejected: the \<^verbatim>\<open>catch\<close> of lines 56--58 and the \<^verbatim>\<open>finally\<close>.\<close>

definition logAttendance_rejected :: "js_error \<Rightarrow> controller \<Rightarrow> controller" where
  "logAttendance_rejected error s =
     s\<lparr>message := ''Error logging attendance: '' @ error_message error @ ''.'',
       isProcessing := False\<rparr>"

text \<open>The recognition object's handlers (lines 77--96).\<close>

definition onresult :: "closure \<Rightarrow> string \<Rightarrow> controller \<Rightarrow> controller" where
  "onresult cl transcript s =
     logAttendance_begin cl transcript
       (s\<lparr>recognizedName := transcript,
          message := ''Name recognized: '' @ transcript @ ''. Logging attendance...'',
          isListeningForName := False\<rparr>)"

definition onerror :: "string \<Rightarrow> controller \<Rightarrow> controller" where
  "onerror err s =
     s\<lparr>message := ''Voice input error: '' @ err @ ''. Please try again.'',
       isListeningForName := False, recognizedName := []\<rparr>"

definition onend :: "controller \<Rightarrow> controller" where
  "onend s = s\<lparr>isListeningForName := False\<rparr>"

subsection \<open>What is rendered\<close>

text \<open>The conditions under which each button is rendered and enabled (lines 244--306).\<close>

definition start_camera_shown :: "controller \<Rightarrow> bool" where
  "start_camera_shown s = (\<not> isCameraActive s \<and> \<not> truthy (capturedImage s))"

definition capture_shown :: "controller \<Rightarrow> bool" where
  "capture_shown s = isCameraActive s"

definition process_shown :: "controller \<Rightarrow> bool" where
  "process_shown s =
     (truthy (capturedImage s) \<and> \<not> faceDetectedByAI s \<and> \<not> isProcessing s \<and> recognizedName s = [])"

definition say_my_name_shown :: "controller \<Rightarrow> bool" where
  "say_my_name_shown s =
     (truthy (capturedImage s) \<and> faceDetectedByAI s \<and> \<not> isListeningForName s \<and>
      \<not> isProcessing s \<and> recognizedName s = [])"

definition retake_enabled :: "controller \<Rightarrow> bool" where
  "retake_enabled s =
     ((truthy (capturedImage s) \<or> isProcessing s \<or> isListeningForName s) \<and>
      \<not> (isProcessing s \<or> isListeningForName s))"


subsection \<open>Rendering, events and runs\<close>

text \<open>
  After a handler has run, React renders and runs the effects whose dependencies
  changed; \<open>prev\<close> is the state of the previous render. The cleanup of lines 215--224
  (dependencies \<^verbatim>\<open>[stream, isListeningForName]\<close>) stops the tracks of the stream the
  previous render held; its call of \<^verbatim>\<open>stop()\<close> on the recognition object changes no
  state of the component. The effect of lines 67--103 (dependency
  \<^verbatim>\<open>[logAttendance]\<close>) stores a new recognition object closing over the new values,
  or reports that the browser has none; \<open>supported\<close> is
  \<^verbatim>\<open>'webkitSpeechRecognition' in window\<close>.
\<close>

definition commit :: "bool \<Rightarrow> controller \<Rightarrow> controller \<Rightarrow> controller" where
  "commit supported prev s =
     (let s1 =
        (if stream s = stream prev \<and> isListeningForName s = isListeningForName prev then s
         else (case stream prev of
                 Some st \<Rightarrow> s\<lparr>live_streams := removeAll st (live_streams s)\<rparr>
               | None \<Rightarrow> s))
      in if db s = db prev \<and> userId s = userId prev \<and> capturedImage s = capturedImage prev then s1
         else if supported
           then s1\<lparr>speechRecognition :=
                    Some \<lparr>cl_db = db s, cl_userId = userId s, cl_capturedImage = capturedImage s\<rparr>\<rparr>
           else s1\<lparr>message := ''Speech recognition not supported in this browser. Please use Chrome or similar.''\<rparr>)"

text \<open>The component after its first render and effects, with the props it is given.\<close>

definition mount :: "bool \<Rightarrow> bool \<Rightarrow> string option \<Rightarrow> controller" where
  "mount supported db0 userId0 =
     \<lparr>stream = None, isCameraActive = False, capturedImage = None, isProcessing = False,
      faceDetectedByAI = False, isListeningForName = False, recognizedName = [],
      message = (if supported then []
                 else ''Speech recognition not supported in this browser. Please use Chrome or similar.''),
      db = db0, userId = userId0,
      speechRecognition =
        (if supported then Some \<lparr>cl_db = db0, cl_userId = userId0, cl_capturedImage = None\<rparr>
         else None),
      live_streams = [], streams_created = 0, getUserMedia_pending = 0,
      classifier_calls = [], classifier_pending = [],
      addDoc_calls = [], addDoc_pending = [], stored = [], session = NoSession\<rparr>"

text \<open>
  What can happen to the mounted component: a click on a button, or the settling of
  a call in flight. A click on Capture carries the frame's data URL; the classifier's
  answer is the outcome of the \<^verbatim>\<open>fetch\<close>.
\<close>

datatype event =
    ClickStartCamera
  | ClickCapture string
  | ClickProcess
  | ClickSayMyName
  | ClickRetake
  | GetUserMediaResolved
  | GetUserMediaRejected
  | ClassifierAnswers fetch_outcome
  | SpeechResult string
  | SpeechError string
  | SpeechEnd
  | AddDocResolved
  | AddDocRejected js_error

record config =
  cfg_builtins :: js_builtins
  cfg_API_KEY :: string
  cfg_speech :: bool

text \<open>
  The handler an event runs; \<open>None\<close> when the event cannot happen: the button is not
  rendered or is disabled, or no such call is in flight. The \<^verbatim>\<open>video\<close> and
  \<^verbatim>\<open>canvas\<close> elements are always rendered (lines 235 and 239), so both refs are
  set once the component is mounted. Two restrictions are the model's, not checks of
  the component: calls of one kind settle in the order they were made, and Say My
  Name is clicked only when the previous recognition session has ended (the component
  would call \<^verbatim>\<open>start()\<close> on a session that has not ended; such runs are left out).
\<close>

fun handle :: "config \<Rightarrow> event \<Rightarrow> controller \<Rightarrow> controller option" where
  "handle cfg ClickStartCamera s =
     (if start_camera_shown s then Some (startCamera_begin s) else None)"
| "handle cfg (ClickCapture imageDataUrl) s =
     (if capture_shown s then Some (captureImage True imageDataUrl s) else None)"
| "handle cfg ClickProcess s =
     (if process_shown s then Some (handleProcessImage_begin s) else None)"
| "handle cfg ClickSayMyName s =
     (if say_my_name_shown s \<and> session s = NoSession then Some (startVoiceInput s) else None)"
| "handle cfg ClickRetake s =
     (if retake_enabled s then Some (retakeImage s) else None)"
| "handle cfg GetUserMediaResolved s =
     (case getUserMedia_pending s of
        0 \<Rightarrow> None
      | Suc n \<Rightarrow>
          Some (startCamera_resolved True (streams_created s)
                  (s\<lparr>getUserMedia_pending := n, streams_created := Suc (streams_created s)\<rparr>)))"
| "handle cfg GetUserMediaRejected s =
     (case getUserMedia_pending s of
        0 \<Rightarrow> None
      | Suc n \<Rightarrow> Some (startCamera_rejected (s\<lparr>getUserMedia_pending := n\<rparr>)))"
| "handle cfg (ClassifierAnswers outcome) s =
     (case classifier_pending s of
        [] \<Rightarrow> None
      | img # rest \<Rightarrow>
          Some (handleProcessImage_settled (cfg_builtins cfg)
                  (processImageWithAI (cfg_builtins cfg) (cfg_API_KEY cfg) (\<lambda>d. outcome) img)
                  (s\<lparr>classifier_pending := rest\<rparr>)))"
| "handle cfg (SpeechResult transcript) s =
     (case session s of
        Listening cl \<Rightarrow> Some (onresult cl transcript (s\<lparr>session := Finishing\<rparr>))
      | _ \<Rightarrow> None)"
| "handle cfg (SpeechError err) s =
     (case session s of
        Listening cl \<Rightarrow> Some (onerror err (s\<lparr>session := Finishing\<rparr>))
      | _ \<Rightarrow> None)"
| "handle cfg SpeechEnd s =
     (case session s of
        NoSession \<Rightarrow> None
      | _ \<Rightarrow> Some (onend (s\<lparr>session := NoSession\<rparr>)))"
| "handle cfg AddDocResolved s =
     (case addDoc_pending s of
        [] \<Rightarrow> None
      | doc # rest \<Rightarrow>
          Some (logAttendance_resolved (personName doc)
                  (s\<lparr>addDoc_pending := rest, stored := stored s @ [doc]\<rparr>)))"
| "handle cfg (AddDocRejected error) s =
     (case addDoc_pending s of
        [] \<Rightarrow> None
      | doc # rest \<Rightarrow> Some (logAttendance_rejected error (s\<lparr>addDoc_pending := rest\<rparr>)))"

definition step :: "config \<Rightarrow> event \<Rightarrow> controller \<Rightarrow> controller option" where
  "step cfg e s = map_option (commit (cfg_speech cfg) s) (handle cfg e s)"

fun run :: "config \<Rightarrow> event list \<Rightarrow> controller \<Rightarrow> controller option" where
  "run cfg [] s = Some s"
| "run cfg (e # es) s = (case step cfg e s of None \<Rightarrow> None | Some s' \<Rightarrow> run cfg es s')"

section \<open>Concrete data for the examples\<close>

text \<open>
  Two texts a classifier may return, and a \<^verbatim>\<open>JSON.parse\<close> that parses these two
  and throws on every other text of the examples (none of which is JSON).
\<close>

definition face_text :: string where
  "face_text = ''{\"status\":\"success\",\"message\":\"Face detected\"}''"

definition no_face_text :: string where
  "no_face_text = ''{\"status\":\"failure\",\"message\":\"No face detected\"}''"

definition example_builtins :: js_builtins where
  "example_builtins =
     \<lparr>JSON_parse = (\<lambda>txt.
        if txt = face_text
        then Inr (JObj [(''status'', JStr ''success''), (''message'', JStr ''Face detected'')])
        else if txt = no_face_text
        then Inr (JObj [(''status'', JStr ''failure''), (''message'', JStr ''No face detected'')])
        else Inl (JsError ''Unexpected token'')),
      JSON_stringify = (\<lambda>v. ''{}''),
      Number_toString = (\<lambda>r. ''500''),
      String_toNumber = (\<lambda>txt. None),
      TypeError_text = (\<lambda>v k. ''Cannot read properties of null'')\<rparr>"

text \<open>A response body of the expected structure around a text, and the response carrying it.\<close>

definition body_with :: "string \<Rightarrow> jsval" where
  "body_with txt =
     JObj [(''candidates'',
            JArr [JObj [(''content'', JObj [(''parts'', JArr [JObj [(''text'', JStr txt)]])])]])]"

definition answer :: "string \<Rightarrow> fetch_outcome" where
  "answer txt =
     FetchResolved \<lparr>resp_ok = True, resp_status = 200, resp_statusText = ''OK'',
                    resp_json = Inr (body_with txt)\<rparr>"

definition server_error :: http_response where
  "server_error =
     \<lparr>resp_ok = False, resp_status = 500, resp_statusText = ''Internal Server Error'',
      resp_json = Inr (JObj [])\<rparr>"

definition empty_reply :: http_response where
  "empty_reply =
     \<lparr>resp_ok = True, resp_status = 200, resp_statusText = ''OK'',
      resp_json = Inl (JsError ''Unexpected end of JSON input'')\<rparr>"

definition example_config :: config where
  "example_config = \<lparr>cfg_builtins = example_builtins, cfg_API_KEY = ''key'', cfg_speech = True\<rparr>"

definition first_frame :: string where
  "first_frame = ''data:image/png;base64,AAAA''"

definition second_frame :: string where
  "second_frame = ''data:image/png;base64,BBBB''"

text \<open>The mounted component of a signed-in user, in a browser with speech recognition.\<close>

definition mounted :: controller where
  "mounted = mount True True (Some ''user-1'')"

text \<open>
  States of a normal session: the camera is live; a frame was captured; the classifier
  confirmed a face; the recogniser is listening; the name was heard and the write is
  in flight.
\<close>

definition camera_active_example :: controller where
  "camera_active_example =
     mounted\<lparr>stream := Some 0, isCameraActive := True, live_streams := [0], streams_created := 1\<rparr>"

definition captured_example :: controller where
  "captured_example =
     mounted\<lparr>capturedImage := Some first_frame,
       speechRecognition :=
         Some \<lparr>cl_db = True, cl_userId = Some ''user-1'', cl_capturedImage = Some first_frame\<rparr>,
       streams_created := 1\<rparr>"

definition ready_for_name_example :: controller where
  "ready_for_name_example =
     captured_example\<lparr>faceDetectedByAI := True,
       message := ''Face detected! Please click 'Say My Name' to provide your name.'',
       classifier_calls := [first_frame]\<rparr>"

definition listening_example :: controller where
  "listening_example =
     ready_for_name_example\<lparr>isListeningForName := True,
       message := ''Listening for your name... Please speak clearly.'',
       session :=
         Listening \<lparr>cl_db = True, cl_userId = Some ''user-1'', cl_capturedImage = Some first_frame\<rparr>\<rparr>"

text \<open>
  The events of a session in which Start Camera is clicked a second time while the
  first \<^verbatim>\<open>getUserMedia\<close> is still pending, and the second call resolves only after
  the first frame was captured and classified; and the state they lead to.
\<close>

definition late_camera_events :: "event list" where
  "late_camera_events =
     [ClickStartCamera, ClickStartCamera, GetUserMediaResolved, ClickCapture first_frame,
      ClickProcess, ClassifierAnswers (answer face_text), GetUserMediaResolved]"

definition late_camera_example :: controller where
  "late_camera_example =
     ready_for_name_example\<lparr>stream := Some 1, isCameraActive := True, live_streams := [1],
       streams_created := 2\<rparr>"

text \<open>The events of a normal session up to the start of the recogniser.\<close>

definition normal_events :: "event list" where
  "normal_events =
     [ClickStartCamera, GetUserMediaResolved, ClickCapture first_frame,
      ClickProcess, ClassifierAnswers (answer face_text), ClickSayMyName]"

text \<open>The Idle state: no stream is held, the camera is off and no image is held.\<close>

definition idle :: "controller \<Rightarrow> bool" where
  "idle s = (stream s = None \<and> \<not> isCameraActive s \<and> \<not> truthy (capturedImage s))"

section \<open>Properties of the classifier client\<close>

lemma get_prop_Inr_Inl: "get_prop B v k = Inr x \<Longrightarrow> get_prop B v k' = Inl e \<Longrightarrow> False"
  by (cases v) auto

lemma is_error_result_error_result: "is_error_result (error_result m) = human_readable m"
  by (simp add: is_error_result_def error_result_def)

lemma structure_valid_body_with: "structure_valid example_builtins (body_with txt) = Inr True"
  by (simp add: structure_valid_def body_with_def bind_exn_def gt_zero_def)

lemma response_text_body_with: "response_text example_builtins (body_with txt) = Inr (JStr txt)"
  by (simp add: response_text_def body_with_def bind_exn_def)

lemma JSON_parse_face_text:
  "JSON_parse example_builtins face_text =
     Inr (JObj [(''status'', JStr ''success''), (''message'', JStr ''Face detected'')])"
  by (simp add: example_builtins_def)

lemma JSON_parse_no_face_text:
  "JSON_parse example_builtins no_face_text =
     Inr (JObj [(''status'', JStr ''failure''), (''message'', JStr ''No face detected'')])"
  by (simp add: example_builtins_def face_text_def no_face_text_def)

lemma JSON_parse_garbled: "JSON_parse example_builtins ''garbled'' = Inl (JsError ''Unexpected token'')"
  by (simp add: example_builtins_def face_text_def no_face_text_def)

text \<open>
  C2. Whatever the classifier does, \<^verbatim>\<open>processImageWithAI\<close> resolves, and its result has
  \<^verbatim>\<open>faceDetected\<close> true exactly when a key is configured, an OK response arrived whose
  body has the expected structure, and the text in it parses to a value whose
  \<^verbatim>\<open>message\<close> is the string \<^verbatim>\<open>Face detected\<close>. When the body of the response is
  absent or is not JSON, or the text in it is not JSON, the result has status
  \<^verbatim>\<open>error\<close> and \<^verbatim>\<open>faceDetected\<close> false.
\<close>

theorem processImageWithAI_faceDetected_iff:
  "\<exists>r. processImageWithAI B API_KEY fetch img = Inr r \<and>
     (ai_faceDetected r \<longleftrightarrow>
        API_KEY \<noteq> [] \<and>
        (\<exists>response result t parsed.
           fetch (base64ImageData img) = FetchResolved response \<and> resp_ok response \<and>
           resp_json response = Inr result \<and> structure_valid B result = Inr True \<and>
           response_text B result = Inr t \<and> JSON_parse B (to_string B t) = Inr parsed \<and>
           get_prop B parsed ''message'' = Inr (JStr ''Face detected''))) \<and>
     (\<forall>response e. fetch (base64ImageData img) = FetchResolved response \<longrightarrow>
        resp_json response = Inl e \<longrightarrow> ai_status r = JStr ''error'' \<and> \<not> ai_faceDetected r) \<and>
     (\<forall>response result t e. fetch (base64ImageData img) = FetchResolved response \<longrightarrow>
        resp_json response = Inr result \<longrightarrow> response_text B result = Inr t \<longrightarrow>
        JSON_parse B (to_string B t) = Inl e \<longrightarrow> ai_status r = JStr ''error'' \<and> \<not> ai_faceDetected r)"
  apply (simp add: processImageWithAI_def error_result_def)
  apply (auto simp: try_block_def bind_exn_def parsed_result_def error_result_def
       split: sum.splits if_splits fetch_outcome.splits dest: get_prop_Inr_Inl)
  done

theorem processImageWithAI_faceDetected_iff_witness:
  "(\<exists>r. processImageWithAI example_builtins ''key'' (\<lambda>d. answer face_text) first_frame = Inr r \<and>
        ai_faceDetected r) \<and>
   (\<exists>r. processImageWithAI example_builtins ''key'' (\<lambda>d. answer no_face_text) first_frame = Inr r \<and>
        \<not> ai_faceDetected r) \<and>
   (\<exists>r. processImageWithAI example_builtins ''key'' (\<lambda>d. FetchResolved empty_reply) first_frame = Inr r \<and>
        ai_status r = JStr ''error'' \<and> \<not> ai_faceDetected r) \<and>
   (\<exists>r. processImageWithAI example_builtins ''key'' (\<lambda>d. answer ''garbled'') first_frame = Inr r \<and>
        ai_status r = JStr ''error'' \<and> \<not> ai_faceDetected r)"
proof (intro conjI)
  show "\<exists>r. processImageWithAI example_builtins ''key'' (\<lambda>d. answer face_text) first_frame = Inr r \<and>
        ai_faceDetected r"
    using processImageWithAI_faceDetected_iff
            [of example_builtins "''key''" "\<lambda>d. answer face_text" first_frame]
          structure_valid_body_with [of face_text] response_text_body_with [of face_text]
          JSON_parse_face_text
    by (auto simp: answer_def)
  show "\<exists>r. processImageWithAI example_builtins ''key'' (\<lambda>d. answer no_face_text) first_frame = Inr r \<and>
        \<not> ai_faceDetected r"
    using processImageWithAI_faceDetected_iff
            [of example_builtins "''key''" "\<lambda>d. answer no_face_text" first_frame]
          response_text_body_with [of no_face_text] JSON_parse_no_face_text
    by (auto simp: answer_def)
  show "\<exists>r. processImageWithAI example_builtins ''key'' (\<lambda>d. FetchResolved empty_reply) first_frame = Inr r \<and>
        ai_status r = JStr ''error'' \<and> \<not> ai_faceDetected r"
    using processImageWithAI_faceDetected_iff
            [of example_builtins "''key''" "\<lambda>d. FetchResolved empty_reply" first_frame]
    by (auto simp: empty_reply_def)
  show "\<exists>r. processImageWithAI example_builtins ''key'' (\<lambda>d. answer ''garbled'') first_frame = Inr r \<and>
        ai_status r = JStr ''error'' \<and> \<not> ai_faceDetected r"
    using processImageWithAI_faceDetected_iff
            [of example_builtins "''key''" "\<lambda>d. answer ''garbled''" first_frame]
          response_text_body_with [of "''garbled''"] JSON_parse_garbled
    by (auto simp: answer_def)
qed

text \<open>
  C6. For every image and every behaviour of the classifier, \<^verbatim>\<open>processImageWithAI\<close>
  resolves (it never rejects), and the result is an error result (status \<^verbatim>\<open>error\<close>,
  \<^verbatim>\<open>faceDetected\<close> false, a message in one of the three readable forms) whenever no key
  is configured, the request fails, the response is not OK, its body is absent or not
  JSON, the body fails the structure validation, or the text in it is not JSON or is
  \<^verbatim>\<open>null\<close>. Every result that is not an error result comes from an OK response with
  a valid structure whose text parsed.
\<close>

theorem processImageWithAI_never_rejects:
  "\<exists>r. processImageWithAI B API_KEY fetch img = Inr r \<and>
    (API_KEY = [] \<longrightarrow> is_error_result r) \<and>
    (\<forall>e. fetch (base64ImageData img) = FetchRejected e \<longrightarrow> is_error_result r) \<and>
    (\<forall>response. fetch (base64ImageData img) = FetchResolved response \<longrightarrow>
        (\<not> resp_ok response \<longrightarrow> is_error_result r) \<and>
        (\<forall>e. resp_json response = Inl e \<longrightarrow> is_error_result r) \<and>
        (\<forall>result. resp_json response = Inr result \<longrightarrow>
            (structure_valid B result \<noteq> Inr True \<longrightarrow> is_error_result r) \<and>
            (\<forall>t e. response_text B result = Inr t \<longrightarrow>
                 JSON_parse B (to_string B t) = Inl e \<longrightarrow> is_error_result r) \<and>
            (\<forall>t. response_text B result = Inr t \<longrightarrow>
                 JSON_parse B (to_string B t) = Inr JNull \<longrightarrow> is_error_result r))) \<and>
    (is_error_result r \<or>
       (\<exists>response result t parsed.
           API_KEY \<noteq> [] \<and> fetch (base64ImageData img) = FetchResolved response \<and>
           resp_ok response \<and> resp_json response = Inr result \<and>
           structure_valid B result = Inr True \<and> response_text B result = Inr t \<and>
           JSON_parse B (to_string B t) = Inr parsed))"
  apply (simp add: processImageWithAI_def is_error_result_error_result human_readable_def)
  apply (auto simp: try_block_def bind_exn_def parsed_result_def
      is_error_result_error_result human_readable_def split: sum.splits if_splits fetch_outcome.splits)
  done

theorem processImageWithAI_never_rejects_witness:
  "(\<exists>r. processImageWithAI example_builtins [] (\<lambda>d. answer face_text) first_frame = Inr r \<and>
        is_error_result r) \<and>
   (\<exists>r. processImageWithAI example_builtins ''key'' (\<lambda>d. FetchRejected (JsError ''Failed to fetch''))
          first_frame = Inr r \<and> is_error_result r) \<and>
   (\<exists>r. processImageWithAI example_builtins ''key'' (\<lambda>d. FetchResolved server_error) first_frame = Inr r \<and>
        is_error_result r) \<and>
   (\<exists>r. processImageWithAI example_builtins ''key'' (\<lambda>d. FetchResolved empty_reply) first_frame = Inr r \<and>
        is_error_result r) \<and>
   (\<exists>r. processImageWithAI example_builtins ''key'' (\<lambda>d. answer ''garbled'') first_frame = Inr r \<and>
        is_error_result r)"
proof (intro conjI)
  show "\<exists>r. processImageWithAI example_builtins [] (\<lambda>d. answer face_text) first_frame = Inr r \<and>
        is_error_result r"
    using processImageWithAI_never_rejects
            [of example_builtins "[]" "\<lambda>d. answer face_text" first_frame]
    by auto
  show "\<exists>r. processImageWithAI example_builtins ''key'' (\<lambda>d. FetchRejected (JsError ''Failed to fetch''))
          first_frame = Inr r \<and> is_error_result r"
    using processImageWithAI_never_rejects
            [of example_builtins "''key''" "\<lambda>d. FetchRejected (JsError ''Failed to fetch'')" first_frame]
    by auto
  show "\<exists>r. processImageWithAI example_builtins ''key'' (\<lambda>d. FetchResolved server_error) first_frame = Inr r \<and>
        is_error_result r"
    using processImageWithAI_never_rejects
            [of example_builtins "''key''" "\<lambda>d. FetchResolved server_error" first_frame]
    by (auto simp: server_error_def)
  show "\<exists>r. processImageWithAI example_builtins ''key'' (\<lambda>d. FetchResolved empty_reply) first_frame = Inr r \<and>
        is_error_result r"
    using processImageWithAI_never_rejects
            [of example_builtins "''key''" "\<lambda>d. FetchResolved empty_reply" first_frame]
    by (auto simp: empty_reply_def)
  show "\<exists>r. processImageWithAI example_builtins ''key'' (\<lambda>d. answer ''garbled'') first_frame = Inr r \<and>
        is_error_result r"
    using processImageWithAI_never_rejects
            [of example_builtins "''key''" "\<lambda>d. answer ''garbled''" first_frame]
          response_text_body_with [of "''garbled''"] JSON_parse_garbled
    by (auto simp: answer_def)
qed

section \<open>Properties of the capture workflow\<close>

lemmas handler_defs =
  startCamera_begin_def startCamera_resolved_def startCamera_rejected_def stopCamera_def
  captureImage_def handleProcessImage_begin_def handleProcessImage_settled_def
  startVoiceInput_def retakeImage_def logAttendance_begin_def logAttendance_resolved_def
  logAttendance_rejected_def onresult_def onerror_def onend_def

lemmas guard_defs =
  start_camera_shown_def capture_shown_def process_shown_def say_my_name_shown_def
  retake_enabled_def truthy_def

subsection \<open>What the handlers and the effects leave unchanged\<close>

lemma stopCamera_fields [simp]:
  "capturedImage (stopCamera s) = capturedImage s"
  "recognizedName (stopCamera s) = recognizedName s"
  "faceDetectedByAI (stopCamera s) = faceDetectedByAI s"
  "isProcessing (stopCamera s) = isProcessing s"
  "isListeningForName (stopCamera s) = isListeningForName s"
  "getUserMedia_pending (stopCamera s) = getUserMedia_pending s"
  "message (stopCamera s) = message s"
  "stream (stopCamera s) = None"
  "isCameraActive (stopCamera s) = False"
  by (simp_all add: stopCamera_def split: option.split)

lemma stopCamera_stops: "stream s = Some st \<Longrightarrow> st \<notin> set (live_streams (stopCamera s))"
  by (simp add: stopCamera_def)

lemma commit_fields [simp]:
  "capturedImage (commit b prev s) = capturedImage s"
  "recognizedName (commit b prev s) = recognizedName s"
  "faceDetectedByAI (commit b prev s) = faceDetectedByAI s"
  "isProcessing (commit b prev s) = isProcessing s"
  "isListeningForName (commit b prev s) = isListeningForName s"
  "isCameraActive (commit b prev s) = isCameraActive s"
  "stream (commit b prev s) = stream s"
  "getUserMedia_pending (commit b prev s) = getUserMedia_pending s"
  "classifier_pending (commit b prev s) = classifier_pending s"
  "classifier_calls (commit b prev s) = classifier_calls s"
  "addDoc_pending (commit b prev s) = addDoc_pending s"
  "addDoc_calls (commit b prev s) = addDoc_calls s"
  "stored (commit b prev s) = stored s"
  "session (commit b prev s) = session s"
  "streams_created (commit b prev s) = streams_created s"
  by (simp_all add: commit_def Let_def split: option.split)

lemma commit_live_streams:
  "stream prev = None \<Longrightarrow> live_streams (commit b prev s) = live_streams s"
  by (simp add: commit_def Let_def)

lemma commit_live_streams_subset: "set (live_streams (commit b prev s)) \<subseteq> set (live_streams s)"
  by (auto simp: commit_def Let_def split: option.split)

lemma commit_message:
  "capturedImage s = capturedImage prev \<Longrightarrow> db s = db prev \<Longrightarrow> userId s = userId prev \<Longrightarrow>
   message (commit b prev s) = message s"
  by (simp add: commit_def Let_def split: option.split)

lemma retakeImage_fields [simp]:
  "capturedImage (retakeImage s) = None"
  "recognizedName (retakeImage s) = []"
  "faceDetectedByAI (retakeImage s) = False"
  "getUserMedia_pending (retakeImage s) = Suc (getUserMedia_pending s)"
  by (simp_all add: retakeImage_def startCamera_begin_def)

lemma run_append:
  "run cfg (xs @ ys) s = (case run cfg xs s of None \<Rightarrow> None | Some s' \<Rightarrow> run cfg ys s')"
  by (induction xs arbitrary: s) (auto split: option.split)

subsection \<open>The examples are states of runs\<close>

lemma processImageWithAI_face:
  "processImageWithAI example_builtins ''key'' (\<lambda>d. answer face_text) img =
     Inr \<lparr>ai_status = JStr ''success'', ai_faceDetected = True, ai_message = JStr ''Face detected''\<rparr>"
  by (simp add: processImageWithAI_def try_block_def answer_def bind_exn_def
      structure_valid_body_with response_text_body_with parsed_result_def JSON_parse_face_text)

lemma processImageWithAI_no_face:
  "processImageWithAI example_builtins ''key'' (\<lambda>d. answer no_face_text) img =
     Inr \<lparr>ai_status = JStr ''failure'', ai_faceDetected = False, ai_message = JStr ''No face detected''\<rparr>"
  by (simp add: processImageWithAI_def try_block_def answer_def bind_exn_def
      structure_valid_body_with response_text_body_with parsed_result_def JSON_parse_no_face_text)

lemma run_camera_active:
  "run example_config [ClickStartCamera, GetUserMediaResolved] mounted = Some camera_active_example"
  by (simp add: step_def commit_def Let_def handler_defs guard_defs camera_active_example_def
      mounted_def mount_def example_config_def)

lemma run_captured:
  "run example_config [ClickCapture first_frame] camera_active_example = Some captured_example"
  by (simp add: step_def commit_def Let_def handler_defs guard_defs camera_active_example_def
      captured_example_def mounted_def mount_def example_config_def first_frame_def)

lemma run_ready_for_name:
  "run example_config [ClickProcess, ClassifierAnswers (answer face_text)] captured_example =
     Some ready_for_name_example"
  by (simp add: step_def commit_def Let_def handler_defs guard_defs ready_for_name_example_def
      captured_example_def mounted_def mount_def example_config_def first_frame_def
      processImageWithAI_face)

lemma run_listening:
  "run example_config [ClickSayMyName] ready_for_name_example = Some listening_example"
  by (simp add: step_def commit_def Let_def handler_defs guard_defs listening_example_def
      ready_for_name_example_def captured_example_def mounted_def mount_def example_config_def
      first_frame_def)

lemma run_normal_events: "run example_config normal_events mounted = Some listening_example"
proof -
  have split: "normal_events =
      [ClickStartCamera, GetUserMediaResolved] @ [ClickCapture first_frame] @
      [ClickProcess, ClassifierAnswers (answer face_text)] @ [ClickSayMyName]"
    by (simp add: normal_events_def)
  show ?thesis
    unfolding split
    by (simp only: run_append run_camera_active run_captured run_ready_for_name run_listening
        option.case)
qed

lemma run_late_camera:
  "run example_config late_camera_events mounted = Some late_camera_example"
  by (simp add: step_def commit_def Let_def handler_defs guard_defs late_camera_events_def
      late_camera_example_def ready_for_name_example_def captured_example_def mounted_def
      mount_def example_config_def first_frame_def
      processImageWithAI_face)

subsection \<open>Retake\<close>

text \<open>
  C3. In every state in which the Retake button is enabled, a click on it runs
  \<^verbatim>\<open>retakeImage\<close> and leaves no captured image, an empty recognised name and a clear
  face-detection gate; the camera start it triggers does not change these three,
  however \<^verbatim>\<open>getUserMedia\<close> settles.
\<close>

theorem retakeImage_clears_session:
  assumes "retake_enabled s"
  shows "\<exists>s' s1 s2.
           step cfg ClickRetake s = Some s' \<and>
           capturedImage s' = None \<and> recognizedName s' = [] \<and> \<not> faceDetectedByAI s' \<and>
           step cfg GetUserMediaResolved s' = Some s1 \<and>
           capturedImage s1 = None \<and> recognizedName s1 = [] \<and> \<not> faceDetectedByAI s1 \<and>
           step cfg GetUserMediaRejected s' = Some s2 \<and>
           capturedImage s2 = None \<and> recognizedName s2 = [] \<and> \<not> faceDetectedByAI s2"
  using assms
  by (simp add: step_def startCamera_resolved_def startCamera_rejected_def Let_def)

theorem retakeImage_clears_session_witness:
  "retake_enabled ready_for_name_example \<and>
   (\<exists>s'. step example_config ClickRetake ready_for_name_example = Some s' \<and>
      capturedImage s' = None \<and> recognizedName s' = [] \<and> \<not> faceDetectedByAI s')"
proof -
  have enabled: "retake_enabled ready_for_name_example"
    by (simp add: guard_defs ready_for_name_example_def captured_example_def mounted_def
        mount_def example_config_def first_frame_def)
  from retakeImage_clears_session [OF enabled, of example_config] enabled
  show ?thesis by blast
qed

subsection \<open>Starting the camera\<close>

text \<open>
  C8. When \<^verbatim>\<open>getUserMedia\<close> rejects after Start Camera was clicked in the Idle state,
  the component is in the Idle state again: no stream is stored, none was created,
  \<^verbatim>\<open>isCameraActive\<close> is false, and the message shown is the
  \<^verbatim>\<open>Could not access webcam\<close> error.
\<close>

theorem startCamera_denied_stays_idle:
  assumes "idle s"
  shows "\<exists>s1 s2.
           step cfg ClickStartCamera s = Some s1 \<and>
           step cfg GetUserMediaRejected s1 = Some s2 \<and>
           idle s2 \<and> stream s2 = None \<and> \<not> isCameraActive s2 \<and>
           live_streams s2 = live_streams s \<and> streams_created s2 = streams_created s \<and>
           message s2 =
             ''Error: Could not access webcam. Please ensure it's connected and permissions are granted.''"
proof -
  from assms have shown: "start_camera_shown s" and held: "stream s = None"
    by (simp_all add: idle_def start_camera_shown_def)
  define s1 where "s1 = commit (cfg_speech cfg) s (startCamera_begin s)"
  define s2 where
    "s2 = commit (cfg_speech cfg) s1 (startCamera_rejected (s1\<lparr>getUserMedia_pending := getUserMedia_pending s\<rparr>))"
  have step1: "step cfg ClickStartCamera s = Some s1"
    using shown by (simp add: step_def s1_def)
  have pending: "getUserMedia_pending s1 = Suc (getUserMedia_pending s)"
    by (simp add: s1_def startCamera_begin_def)
  have step2: "step cfg GetUserMediaRejected s1 = Some s2"
    by (simp add: step_def pending s2_def)
  have s1_stream: "stream s1 = None"
    using held by (simp add: s1_def startCamera_begin_def)
  have s1_live: "live_streams s1 = live_streams s"
    using held by (simp add: s1_def commit_live_streams startCamera_begin_def)
  have s1_created: "streams_created s1 = streams_created s"
    by (simp add: s1_def startCamera_begin_def)
  have s1_image: "capturedImage s1 = None"
    by (simp add: s1_def startCamera_begin_def)
  have "stream s2 = None" "\<not> isCameraActive s2" "capturedImage s2 = None"
    "streams_created s2 = streams_created s"
    using s1_stream s1_image s1_created by (simp_all add: s2_def startCamera_rejected_def)
  moreover have "live_streams s2 = live_streams s"
    using s1_stream s1_live by (simp add: s2_def commit_live_streams startCamera_rejected_def)
  moreover have
    "message s2 =
       ''Error: Could not access webcam. Please ensure it's connected and permissions are granted.''"
    by (simp add: s2_def commit_message startCamera_rejected_def)
  ultimately show ?thesis
    using step1 step2 by (simp add: idle_def truthy_def)
qed

theorem startCamera_denied_stays_idle_witness:
  "idle mounted \<and>
   (\<exists>s2. run example_config [ClickStartCamera, GetUserMediaRejected] mounted = Some s2 \<and>
      idle s2 \<and> stream s2 = None \<and> \<not> isCameraActive s2 \<and> live_streams s2 = [] \<and>
      message s2 =
        ''Error: Could not access webcam. Please ensure it's connected and permissions are granted.'')"
proof -
  have start: "idle mounted"
    by (simp add: idle_def guard_defs mounted_def mount_def)
  have nothing_live: "live_streams mounted = []"
    by (simp add: mounted_def mount_def)
  from startCamera_denied_stays_idle [OF start, of example_config] start nothing_live
  show ?thesis by auto
qed

subsection \<open>What every write carries\<close>

text \<open>
  Whatever happens to the component, every document it hands to \<^verbatim>\<open>addDoc\<close> has a
  non-empty name, a non-empty image and a non-empty user id: only \<^verbatim>\<open>logAttendance\<close>
  makes such a call, behind its checks of lines 28--35 and 41.
\<close>

lemma logAttendance_begin_docs:
  assumes "\<forall>d \<in> set (addDoc_calls s). personName d \<noteq> [] \<and> image d \<noteq> [] \<and> loggedByUserId d \<noteq> []"
  shows "\<forall>d \<in> set (addDoc_calls (logAttendance_begin cl nameToLog s)).
           personName d \<noteq> [] \<and> image d \<noteq> [] \<and> loggedByUserId d \<noteq> []"
  using assms by (auto simp: logAttendance_begin_def Let_def split: option.splits)

lemma handle_docs:
  assumes "handle cfg e s = Some s'"
    "\<forall>d \<in> set (addDoc_calls s). personName d \<noteq> [] \<and> image d \<noteq> [] \<and> loggedByUserId d \<noteq> []"
  shows "\<forall>d \<in> set (addDoc_calls s'). personName d \<noteq> [] \<and> image d \<noteq> [] \<and> loggedByUserId d \<noteq> []"
proof (cases e)
  case (SpeechResult transcript)
  with assms(1) obtain cl where
    s': "s' = logAttendance_begin cl transcript
                (s\<lparr>session := Finishing, recognizedName := transcript,
                   message := ''Name recognized: '' @ transcript @ ''. Logging attendance...'',
                   isListeningForName := False\<rparr>)"
    by (auto simp: onresult_def split: recognition.splits)
  show ?thesis
    unfolding s' by (rule logAttendance_begin_docs) (use assms(2) in simp)
next
  case ClickStartCamera
  with assms show ?thesis by (auto simp: startCamera_begin_def split: if_splits)
next
  case (ClickCapture url)
  with assms show ?thesis
    by (auto simp: captureImage_def stopCamera_def split: if_splits option.splits)
next
  case ClickProcess
  with assms show ?thesis
    by (auto simp: handleProcessImage_begin_def split: if_splits option.splits)
next
  case ClickSayMyName
  with assms show ?thesis by (auto simp: startVoiceInput_def split: if_splits option.splits)
next
  case ClickRetake
  with assms show ?thesis
    by (auto simp: retakeImage_def startCamera_begin_def stopCamera_def split: if_splits option.splits)
next
  case GetUserMediaResolved
  with assms show ?thesis by (auto simp: startCamera_resolved_def Let_def split: nat.splits)
next
  case GetUserMediaRejected
  with assms show ?thesis by (auto simp: startCamera_rejected_def split: nat.splits)
next
  case (ClassifierAnswers outcome)
  with assms show ?thesis
    by (auto simp: handleProcessImage_settled_def split: list.splits sum.splits if_splits)
next
  case (SpeechError err)
  with assms show ?thesis by (auto simp: onerror_def split: recognition.splits)
next
  case SpeechEnd
  with assms show ?thesis by (auto simp: onend_def split: recognition.splits)
next
  case AddDocResolved
  with assms show ?thesis by (auto simp: logAttendance_resolved_def split: list.splits)
next
  case (AddDocRejected error)
  with assms show ?thesis by (auto simp: logAttendance_rejected_def split: list.splits)
qed

lemma run_docs:
  assumes "run cfg es s = Some s'"
    "\<forall>d \<in> set (addDoc_calls s). personName d \<noteq> [] \<and> image d \<noteq> [] \<and> loggedByUserId d \<noteq> []"
  shows "\<forall>d \<in> set (addDoc_calls s'). personName d \<noteq> [] \<and> image d \<noteq> [] \<and> loggedByUserId d \<noteq> []"
  using assms
proof (induction es arbitrary: s)
  case Nil
  then show ?case by simp
next
  case (Cons e es)
  from Cons.prems(1) obtain h where h: "handle cfg e s = Some h"
    and rest: "run cfg es (commit (cfg_speech cfg) s h) = Some s'"
    by (auto simp: step_def split: option.splits)
  from handle_docs [OF h Cons.prems(2)]
  have "\<forall>d \<in> set (addDoc_calls (commit (cfg_speech cfg) s h)).
          personName d \<noteq> [] \<and> image d \<noteq> [] \<and> loggedByUserId d \<noteq> []"
    by simp
  from Cons.IH [OF rest this] show ?case .
qed

lemma every_write_has_name_and_image:
  assumes "run cfg es (mount supported db0 userId0) = Some s" "d \<in> set (addDoc_calls s)"
  shows "personName d \<noteq> [] \<and> image d \<noteq> [] \<and> loggedByUserId d \<noteq> []"
  using run_docs [OF assms(1)] assms(2) by (simp add: mount_def)

subsection \<open>Logging\<close>

lemma logAttendance_begin_writes:
  assumes "nameToLog \<noteq> []" "cl_capturedImage cl = Some img" "img \<noteq> []"
    "cl_userId cl = Some uid" "uid \<noteq> []" "cl_db cl"
  shows "logAttendance_begin cl nameToLog s =
           s\<lparr>message := ''Logging attendance for '' @ nameToLog @ ''...'',
             isProcessing := True,
             addDoc_calls := addDoc_calls s @ [\<lparr>personName = nameToLog, image = img, loggedByUserId = uid\<rparr>],
             addDoc_pending := addDoc_pending s @ [\<lparr>personName = nameToLog, image = img, loggedByUserId = uid\<rparr>]\<rparr>"
  using assms by (simp add: logAttendance_begin_def Let_def)

text \<open>
  Every document handed to \<^verbatim>\<open>addDoc\<close> carries a non-empty name, a non-empty image and
  a non-empty user id: \<^verbatim>\<open>logAttendance\<close> adds no other call.
\<close>

lemma logAttendance_begin_calls:
  "addDoc_calls (logAttendance_begin cl nameToLog s) = addDoc_calls s \<or>
   (\<exists>img uid. nameToLog \<noteq> [] \<and> cl_capturedImage cl = Some img \<and> img \<noteq> [] \<and>
      cl_userId cl = Some uid \<and> uid \<noteq> [] \<and> cl_db cl \<and>
      addDoc_calls (logAttendance_begin cl nameToLog s) =
        addDoc_calls s @ [\<lparr>personName = nameToLog, image = img, loggedByUserId = uid\<rparr>])"
  by (simp add: logAttendance_begin_def Let_def split: option.split)

text \<open>
  C5. When the recogniser delivers a name for the image held, the write is issued; when
  the write succeeds, the recognised name and the face-detection gate are cleared, the
  success message is shown, the document is stored, and the captured image is the one
  held before: the state is Captured again, the one in which Process with AI is offered.
\<close>

theorem write_success_returns_to_captured:
  assumes "session s = Listening cl" "cl_capturedImage cl = capturedImage s"
    "truthy (capturedImage s)" "cl_db cl" "truthy (cl_userId cl)" "transcript \<noteq> []"
    "addDoc_pending s = []"
  shows "\<exists>s1 s2 doc.
           step cfg (SpeechResult transcript) s = Some s1 \<and>
           isProcessing s1 \<and> addDoc_pending s1 = [doc] \<and>
           personName doc = transcript \<and> Some (image doc) = capturedImage s \<and>
           step cfg AddDocResolved s1 = Some s2 \<and>
           recognizedName s2 = [] \<and> \<not> faceDetectedByAI s2 \<and> \<not> isProcessing s2 \<and>
           message s2 = ''Attendance logged successfully for '' @ transcript @ ''!'' \<and>
           capturedImage s2 = capturedImage s \<and> process_shown s2 \<and>
           stored s2 = stored s @ [doc]"
proof -
  from assms obtain img uid where
    img: "capturedImage s = Some img" "img \<noteq> []" and uid: "cl_userId cl = Some uid" "uid \<noteq> []"
    by (auto simp: truthy_def split: option.splits)
  define doc where "doc = \<lparr>personName = transcript, image = img, loggedByUserId = uid\<rparr>"
  define h1 where "h1 = onresult cl transcript (s\<lparr>session := Finishing\<rparr>)"
  define s1 where "s1 = commit (cfg_speech cfg) s h1"
  define s2 where
    "s2 = commit (cfg_speech cfg) s1
            (logAttendance_resolved transcript (s1\<lparr>addDoc_pending := [], stored := stored s1 @ [doc]\<rparr>))"
  have h1_eq: "h1 =
      s\<lparr>session := Finishing, recognizedName := transcript,
        message := ''Logging attendance for '' @ transcript @ ''...'',
        isListeningForName := False, isProcessing := True,
        addDoc_calls := addDoc_calls s @ [doc], addDoc_pending := [doc]\<rparr>"
    using assms img uid
    by (simp add: h1_def onresult_def doc_def logAttendance_begin_writes [where img = img and uid = uid])
  have step1: "step cfg (SpeechResult transcript) s = Some s1"
    using assms(1) by (simp add: step_def s1_def h1_def)
  have s1_fields: "isProcessing s1" "addDoc_pending s1 = [doc]" "capturedImage s1 = capturedImage s"
    "stored s1 = stored s" "db s1 = db s" "userId s1 = userId s"
    by (simp_all add: s1_def h1_eq commit_def Let_def split: option.split)
  have step2: "step cfg AddDocResolved s1 = Some s2"
    by (simp add: step_def s1_fields s2_def doc_def)
  have s2_fields: "recognizedName s2 = []" "\<not> faceDetectedByAI s2" "\<not> isProcessing s2"
    "capturedImage s2 = capturedImage s" "stored s2 = stored s @ [doc]"
    using s1_fields by (simp_all add: s2_def logAttendance_resolved_def)
  have s2_message: "message s2 = ''Attendance logged successfully for '' @ transcript @ ''!''"
    by (simp add: s2_def commit_message logAttendance_resolved_def)
  have "process_shown s2"
    using s2_fields assms(3) by (simp add: process_shown_def)
  with step1 step2 s1_fields s2_fields s2_message img show ?thesis
    by (simp add: doc_def)
qed

theorem write_success_returns_to_captured_witness:
  "run example_config normal_events mounted = Some listening_example \<and>
   (\<exists>s2. run example_config [SpeechResult ''Alice'', AddDocResolved] listening_example = Some s2 \<and>
      recognizedName s2 = [] \<and> \<not> faceDetectedByAI s2 \<and> process_shown s2 \<and>
      capturedImage s2 = Some first_frame \<and>
      message s2 = ''Attendance logged successfully for Alice!'' \<and>
      stored s2 = [\<lparr>personName = ''Alice'', image = first_frame, loggedByUserId = ''user-1''\<rparr>])"
proof -
  have facts:
    "session listening_example =
       Listening \<lparr>cl_db = True, cl_userId = Some ''user-1'', cl_capturedImage = Some first_frame\<rparr>"
    "capturedImage listening_example = Some first_frame"
    "addDoc_pending listening_example = []" "stored listening_example = []"
    by (simp_all add: listening_example_def ready_for_name_example_def captured_example_def
        mounted_def mount_def example_config_def first_frame_def)
  have hyps:
    "cl_capturedImage \<lparr>cl_db = True, cl_userId = Some ''user-1'', cl_capturedImage = Some first_frame\<rparr>
       = capturedImage listening_example"
    "truthy (capturedImage listening_example)"
    "cl_db \<lparr>cl_db = True, cl_userId = Some ''user-1'', cl_capturedImage = Some first_frame\<rparr>"
    "truthy (cl_userId \<lparr>cl_db = True, cl_userId = Some ''user-1'', cl_capturedImage = Some first_frame\<rparr>)"
    "''Alice'' \<noteq> []"
    by (simp_all add: facts truthy_def first_frame_def)
  from write_success_returns_to_captured
         [OF facts(1) hyps(1) hyps(2) hyps(3) hyps(4) hyps(5) facts(3), of example_config]
  obtain s1 s2 doc where run:
    "step example_config (SpeechResult ''Alice'') listening_example = Some s1"
    "addDoc_pending s1 = [doc]" "personName doc = ''Alice''"
    "Some (image doc) = capturedImage listening_example"
    "step example_config AddDocResolved s1 = Some s2"
    "recognizedName s2 = []" "\<not> faceDetectedByAI s2"
    "message s2 = ''Attendance logged successfully for '' @ ''Alice'' @ ''!''"
    "capturedImage s2 = capturedImage listening_example" "process_shown s2"
    "stored s2 = stored listening_example @ [doc]"
    by blast
  have uid: "loggedByUserId doc = ''user-1''"
    using run(1,2)
    by (auto simp: step_def commit_def Let_def onresult_def logAttendance_begin_def facts
        first_frame_def split: option.splits if_splits)
  have "doc = \<lparr>personName = ''Alice'', image = first_frame, loggedByUserId = ''user-1''\<rparr>"
    using run(3,4) uid facts(2) by (cases doc) simp
  with run facts run_normal_events show ?thesis
    by simp
qed

subsection \<open>Classification\<close>

lemma handleProcessImage_begin_sends:
  assumes "capturedImage s = Some img" "img \<noteq> []"
  shows "handleProcessImage_begin s =
           s\<lparr>isProcessing := True,
             message := ''Processing image with AI for face detection...'',
             faceDetectedByAI := False,
             classifier_calls := classifier_calls s @ [img],
             classifier_pending := classifier_pending s @ [img]\<rparr>"
  using assms by (simp add: handleProcessImage_begin_def)

lemma handleProcessImage_settled_negative:
  assumes "\<not> ai_faceDetected r"
  shows "faceDetectedByAI (handleProcessImage_settled B (Inr r) s) = False"
    "recognizedName (handleProcessImage_settled B (Inr r) s) = []"
    "isProcessing (handleProcessImage_settled B (Inr r) s) = False"
    "capturedImage (handleProcessImage_settled B (Inr r) s) = capturedImage s"
    "classifier_pending (handleProcessImage_settled B (Inr r) s) = classifier_pending s"
    "addDoc_calls (handleProcessImage_settled B (Inr r) s) = addDoc_calls s"
    "stored (handleProcessImage_settled B (Inr r) s) = stored s"
  using assms by (simp_all add: handleProcessImage_settled_def)

lemma process_negative_once:
  assumes "process_shown s" "classifier_pending s = []" "capturedImage s = Some img"
    "processImageWithAI (cfg_builtins cfg) (cfg_API_KEY cfg) (\<lambda>d. outcome) img = Inr r"
    "\<not> ai_faceDetected r"
  shows "\<exists>s1. run cfg [ClickProcess, ClassifierAnswers outcome] s = Some s1 \<and>
           process_shown s1 \<and> classifier_pending s1 = [] \<and> capturedImage s1 = Some img \<and>
           \<not> faceDetectedByAI s1 \<and> recognizedName s1 = [] \<and>
           addDoc_calls s1 = addDoc_calls s \<and> stored s1 = stored s"
proof -
  from assms(1,3) have img: "img \<noteq> []"
    by (simp add: process_shown_def truthy_def)
  define s0 where "s0 = commit (cfg_speech cfg) s (handleProcessImage_begin s)"
  define s1 where
    "s1 = commit (cfg_speech cfg) s0
            (handleProcessImage_settled (cfg_builtins cfg) (Inr r) (s0\<lparr>classifier_pending := []\<rparr>))"
  have step1: "step cfg ClickProcess s = Some s0"
    using assms(1) by (simp add: step_def s0_def)
  have s0_fields: "classifier_pending s0 = [img]" "capturedImage s0 = Some img"
    "addDoc_calls s0 = addDoc_calls s" "stored s0 = stored s"
    using assms(2,3) img by (simp_all add: s0_def handleProcessImage_begin_sends [where img = img])
  have step2: "step cfg (ClassifierAnswers outcome) s0 = Some s1"
    using assms(4) by (simp add: step_def s0_fields s1_def)
  have s1_fields: "\<not> faceDetectedByAI s1" "recognizedName s1 = []" "\<not> isProcessing s1"
    "capturedImage s1 = Some img" "classifier_pending s1 = []"
    "addDoc_calls s1 = addDoc_calls s" "stored s1 = stored s"
    using assms(5) s0_fields by (simp_all add: s1_def handleProcessImage_settled_negative)
  have "process_shown s1"
    using s1_fields img by (simp add: process_shown_def truthy_def)
  with step1 step2 s1_fields show ?thesis
    by simp
qed

text \<open>
  C10. In a Captured state, two invocations of Process with AI on the image held, each
  answered by the classifier with the same outcome for which \<^verbatim>\<open>processImageWithAI\<close>
  reports no face, each end in the Captured state with the same image, a clear
  face-detection gate and an empty name; no call of \<^verbatim>\<open>addDoc\<close> is made and nothing
  is stored.
\<close>

theorem process_twice_negative_stays_captured:
  assumes "process_shown s" "classifier_pending s = []" "capturedImage s = Some img"
    "processImageWithAI (cfg_builtins cfg) (cfg_API_KEY cfg) (\<lambda>d. outcome) img = Inr r"
    "\<not> ai_faceDetected r"
  shows "\<exists>s1 s2.
           run cfg [ClickProcess, ClassifierAnswers outcome] s = Some s1 \<and>
           process_shown s1 \<and> capturedImage s1 = Some img \<and>
           \<not> faceDetectedByAI s1 \<and> recognizedName s1 = [] \<and>
           addDoc_calls s1 = addDoc_calls s \<and> stored s1 = stored s \<and>
           run cfg [ClickProcess, ClassifierAnswers outcome] s1 = Some s2 \<and>
           process_shown s2 \<and> capturedImage s2 = Some img \<and>
           \<not> faceDetectedByAI s2 \<and> recognizedName s2 = [] \<and>
           addDoc_calls s2 = addDoc_calls s \<and> stored s2 = stored s"
proof -
  from process_negative_once [OF assms] obtain s1 where first:
    "run cfg [ClickProcess, ClassifierAnswers outcome] s = Some s1"
    "process_shown s1" "classifier_pending s1 = []" "capturedImage s1 = Some img"
    "\<not> faceDetectedByAI s1" "recognizedName s1 = []"
    "addDoc_calls s1 = addDoc_calls s" "stored s1 = stored s"
    by blast
  from process_negative_once [OF first(2) first(3) first(4) assms(4) assms(5)] obtain s2 where second:
    "run cfg [ClickProcess, ClassifierAnswers outcome] s1 = Some s2"
    "process_shown s2" "capturedImage s2 = Some img"
    "\<not> faceDetectedByAI s2" "recognizedName s2 = []"
    "addDoc_calls s2 = addDoc_calls s1" "stored s2 = stored s1"
    by blast
  from first second show ?thesis
    by simp
qed

theorem process_twice_negative_stays_captured_witness:
  "process_shown captured_example \<and>
   (\<exists>s1 s2.
      run example_config [ClickProcess, ClassifierAnswers (answer no_face_text)] captured_example = Some s1 \<and>
      process_shown s1 \<and> capturedImage s1 = Some first_frame \<and>
      run example_config [ClickProcess, ClassifierAnswers (answer no_face_text)] s1 = Some s2 \<and>
      process_shown s2 \<and> capturedImage s2 = Some first_frame \<and>
      \<not> faceDetectedByAI s2 \<and> recognizedName s2 = [] \<and> addDoc_calls s2 = [] \<and> stored s2 = [])"
proof -
  have hyps: "process_shown captured_example" "classifier_pending captured_example = []"
    "capturedImage captured_example = Some first_frame"
    by (simp_all add: guard_defs captured_example_def mounted_def mount_def example_config_def
        first_frame_def)
  have calls: "addDoc_calls captured_example = []" "stored captured_example = []"
    by (simp_all add: captured_example_def mounted_def mount_def example_config_def first_frame_def)
  have answer:
    "processImageWithAI (cfg_builtins example_config) (cfg_API_KEY example_config)
       (\<lambda>d. answer no_face_text) first_frame =
     Inr \<lparr>ai_status = JStr ''failure'', ai_faceDetected = False, ai_message = JStr ''No face detected''\<rparr>"
    by (simp add: example_config_def processImageWithAI_no_face)
  have negative:
    "\<not> ai_faceDetected \<lparr>ai_status = JStr ''failure'', ai_faceDetected = False,
                         ai_message = JStr ''No face detected''\<rparr>"
    by simp
  from process_twice_negative_stays_captured [OF hyps answer negative] hyps(1) calls
  show ?thesis
    by auto
qed

subsection \<open>Capture\<close>

text \<open>
  \<^verbatim>\<open>captureImage\<close> never writes the face-detection gate, whether the capture surface is
  ready or not: lines 139--157 call \<^verbatim>\<open>setCapturedImage\<close>, \<^verbatim>\<open>stopCamera\<close> and
  \<^verbatim>\<open>setMessage\<close> only.
\<close>

lemma captureImage_gate_unchanged:
  "faceDetectedByAI (captureImage refs imageDataUrl s) = faceDetectedByAI s"
  by (simp add: captureImage_def)

lemma captureImage_not_ready:
  "captureImage False imageDataUrl s =
     s\<lparr>message := ''Camera or capture area not ready. Please try again.''\<rparr>"
  by (simp add: captureImage_def)

text \<open>
  What a click on Capture does in every state in which the button is rendered: the
  frame is the captured image, the tracks of the stream held are stopped, the stream
  is cleared, the camera is off, and the gate is what it was. The state reached is
  Captured exactly when the gate was clear, no name was held and nothing was
  processing.
\<close>

lemma capture_click_effect:
  assumes "capture_shown s" "imageDataUrl \<noteq> []"
  shows "\<exists>s'. step cfg (ClickCapture imageDataUrl) s = Some s' \<and>
            capturedImage s' = Some imageDataUrl \<and> stream s' = None \<and> \<not> isCameraActive s' \<and>
            (\<forall>st. stream s = Some st \<longrightarrow> st \<notin> set (live_streams s')) \<and>
            faceDetectedByAI s' = faceDetectedByAI s \<and>
            (process_shown s' \<longleftrightarrow>
               \<not> faceDetectedByAI s \<and> \<not> isProcessing s \<and> recognizedName s = [])"
proof -
  define h where "h = captureImage True imageDataUrl s"
  define s' where "s' = commit (cfg_speech cfg) s h"
  have step: "step cfg (ClickCapture imageDataUrl) s = Some s'"
    using assms(1) by (simp add: step_def s'_def h_def)
  have fields: "capturedImage s' = Some imageDataUrl" "stream s' = None" "\<not> isCameraActive s'"
    "faceDetectedByAI s' = faceDetectedByAI s" "isProcessing s' = isProcessing s"
    "recognizedName s' = recognizedName s"
    by (simp_all add: s'_def h_def captureImage_def)
  have stopped: "st \<notin> set (live_streams s')" if "stream s = Some st" for st
  proof -
    have "st \<notin> set (live_streams h)"
      using that by (simp add: h_def captureImage_def stopCamera_stops)
    then show ?thesis
      using commit_live_streams_subset [of "cfg_speech cfg" s h] by (auto simp: s'_def)
  qed
  have "process_shown s' \<longleftrightarrow>
          \<not> faceDetectedByAI s \<and> \<not> isProcessing s \<and> recognizedName s = []"
    using fields assms(2) by (simp add: process_shown_def truthy_def)
  with step fields stopped show ?thesis
    by simp
qed

text \<open>
  C7. The claim fails in the state that the late second \<^verbatim>\<open>getUserMedia\<close> of
  \<open>late_camera_events\<close> leaves: the camera is active and Capture is rendered, while
  the gate is still set for the first frame. A click on Capture there, with the capture
  surface ready, stores the second frame, stops and clears the stream and switches the
  camera off, but the gate stays set: the state reached is not Captured (Process with
  AI is not rendered) and Say My Name is offered for a frame that was never classified.
\<close>

theorem captureImage_keeps_stale_gate:
  "run example_config late_camera_events mounted = Some late_camera_example \<and>
   capture_shown late_camera_example \<and> faceDetectedByAI late_camera_example \<and>
   capturedImage late_camera_example = Some first_frame \<and>
   map_option
     (\<lambda>s. (capturedImage s, stream s, isCameraActive s, live_streams s,
           faceDetectedByAI s, process_shown s, say_my_name_shown s))
     (step example_config (ClickCapture second_frame) late_camera_example)
   = Some (Some second_frame, None, False, [], True, False, True) \<and>
   faceDetectedByAI (captureImage True second_frame late_camera_example) \<and>
   \<not> process_shown (captureImage True second_frame late_camera_example)"
  by (simp add: run_late_camera)
     (simp add: step_def commit_def Let_def captureImage_def stopCamera_def guard_defs
         late_camera_example_def ready_for_name_example_def captured_example_def mounted_def
         mount_def example_config_def first_frame_def second_frame_def)

subsection \<open>A write that fails\<close>

text \<open>
  After a failed write the recognised name is still held: \<^verbatim>\<open>logAttendance\<close> clears it
  only after a successful write, and its \<^verbatim>\<open>catch\<close> writes the message alone.
\<close>

lemma logAttendance_rejected_fields:
  "recognizedName (logAttendance_rejected error s) = recognizedName s"
  "capturedImage (logAttendance_rejected error s) = capturedImage s"
  "faceDetectedByAI (logAttendance_rejected error s) = faceDetectedByAI s"
  "isProcessing (logAttendance_rejected error s) = False"
  "message (logAttendance_rejected error s) = ''Error logging attendance: '' @ error_message error @ ''.''"
  by (simp_all add: logAttendance_rejected_def)

lemma say_my_name_needs_empty_name: "recognizedName s \<noteq> [] \<Longrightarrow> \<not> say_my_name_shown s"
  by (simp add: say_my_name_shown_def)

text \<open>
  C4. A normal session up to the recogniser's result \<^verbatim>\<open>Alice\<close>, then the write is
  rejected. The error message is shown and the image and the face-detection gate are
  kept, but the name \<^verbatim>\<open>Alice\<close> is kept too: the state is not Ready-For-Name, Say My
  Name is not rendered, and of all buttons only Retake is.
\<close>

theorem failed_write_keeps_name:
  "map_option
     (\<lambda>s. (capturedImage s, faceDetectedByAI s, recognizedName s, message s,
           say_my_name_shown s, process_shown s, start_camera_shown s, capture_shown s,
           retake_enabled s))
     (run example_config
        (normal_events @ [SpeechResult ''Alice'', SpeechEnd, AddDocRejected (JsError ''offline'')])
        mounted)
   = Some (Some first_frame, True, ''Alice'', ''Error logging attendance: offline.'',
           False, False, False, False, True)"
  by (simp add: run_append run_normal_events)
     (simp add: step_def commit_def Let_def handler_defs guard_defs listening_example_def
         ready_for_name_example_def captured_example_def mounted_def mount_def
         example_config_def first_frame_def)

subsection \<open>Two camera starts in flight\<close>

text \<open>
  C9. Start Camera is clicked twice before the first \<^verbatim>\<open>getUserMedia\<close> settles (the
  button stays rendered while the call is pending). After the first call has resolved,
  stream 0 is held and live; when the second resolves, \<^verbatim>\<open>startCamera\<close> stores
  stream 1 and nothing has stopped stream 0: both are live when the handler returns.
  Only the effect cleanup of the following render stops stream 0.
\<close>

theorem second_stream_acquired_while_first_live:
  "run example_config [ClickStartCamera, ClickStartCamera, GetUserMediaResolved] mounted =
     Some (camera_active_example\<lparr>getUserMedia_pending := 1\<rparr>) \<and>
   stream (camera_active_example\<lparr>getUserMedia_pending := 1\<rparr>) = Some 0 \<and>
   live_streams (camera_active_example\<lparr>getUserMedia_pending := 1\<rparr>) = [0] \<and>
   map_option (\<lambda>s. (stream s, live_streams s))
     (handle example_config GetUserMediaResolved (camera_active_example\<lparr>getUserMedia_pending := 1\<rparr>))
     = Some (Some 1, [1, 0]) \<and>
   map_option (\<lambda>s. (stream s, live_streams s))
     (step example_config GetUserMediaResolved (camera_active_example\<lparr>getUserMedia_pending := 1\<rparr>))
     = Some (Some 1, [1])"
  by (simp add: step_def commit_def Let_def handler_defs guard_defs camera_active_example_def
      mounted_def mount_def example_config_def)

subsection \<open>A record for an image that was never classified\<close>

text \<open>
  C1. The session of \<open>late_camera_events\<close>: the second \<^verbatim>\<open>getUserMedia\<close> resolves after
  the first frame was classified, so the camera is active again while the gate is set.
  A second frame is captured; the gate stays set, Say My Name is offered, the name
  \<^verbatim>\<open>Bob\<close> is recognised and the write succeeds. The stored document carries the second
  frame, and the only image ever sent to the classifier is the first. (That the name
  of every write is non-empty is \<open>every_write_has_name_and_image\<close>.)
\<close>

theorem unclassified_image_logged:
  "map_option (\<lambda>s. (capturedImage s, faceDetectedByAI s, say_my_name_shown s))
     (run example_config (late_camera_events @ [ClickCapture second_frame]) mounted)
     = Some (Some second_frame, True, True) \<and>
   map_option (\<lambda>s. (stored s, addDoc_calls s, classifier_calls s))
     (run example_config
        (late_camera_events @
           [ClickCapture second_frame, ClickSayMyName, SpeechResult ''Bob'', AddDocResolved])
        mounted)
     = Some ([\<lparr>personName = ''Bob'', image = second_frame, loggedByUserId = ''user-1''\<rparr>],
             [\<lparr>personName = ''Bob'', image = second_frame, loggedByUserId = ''user-1''\<rparr>],
             [first_frame]) \<and>
   first_frame \<noteq> second_frame"
  by (simp add: run_append run_late_camera)
     (simp add: step_def commit_def Let_def handler_defs guard_defs late_camera_example_def
         ready_for_name_example_def captured_example_def mounted_def mount_def
         example_config_def first_frame_def second_frame_def)

end
